theory Spec2Isabelle
  imports Complex_Main
begin

section \<open>Bandwidth limit strings\<close>

text \<open>
  Go's \<open>int64\<close> is modelled as \<open>int\<close> with the two's-complement wrap-around written
  out; Go's integer division truncates towards zero.
\<close>

definition wrap64 :: "int \<Rightarrow> int" where
  "wrap64 x = (x + 2 ^ 63) mod 2 ^ 64 - 2 ^ 63"

definition quo :: "int \<Rightarrow> int \<Rightarrow> int" where
  "quo a b = (if (a < 0) = (b < 0) then \<bar>a\<bar> div \<bar>b\<bar> else - (\<bar>a\<bar> div \<bar>b\<bar>))"

text \<open>
  The table \<open>uomSuffixes\<close>: an anonymous struct \<open>{unit, mul, div}\<close> per entry, here a
  triple, in the order of the source.
\<close>

definition uomSuffixes :: "(string \<times> int \<times> int) list" where
  "uomSuffixes =
     [(''Kbps'', 1000, 8),
      (''Mbps'', 1000 * 1000, 8),
      (''Gbps'', 1000 * 1000 * 1000, 8),
      (''KBps'', 1024, 1),
      (''MBps'', 1024 * 1024, 1),
      (''GBps'', 1024 * 1024 * 1024, 1),
      (''bps'', 1, 8),
      (''Bps'', 1, 1)]"

text \<open>\<open>strings.HasSuffix(s, suffix)\<close>: \<open>len(s) >= len(suffix) && s[len(s)-len(suffix):] == suffix\<close>.\<close>

definition HasSuffix :: "string \<Rightarrow> string \<Rightarrow> bool" where
  "HasSuffix s sfx = (length sfx \<le> length s \<and> drop (length s - length sfx) s = sfx)"

text \<open>
  \<open>parseSuffix\<close>: the \<open>for ... range uomSuffixes\<close> loop returns at the first entry whose
  unit is a suffix of \<open>s\<close>; when the loop runs out it returns \<open>s, 1, 1\<close>.
\<close>

fun parseSuffix_loop :: "(string \<times> int \<times> int) list \<Rightarrow> string \<Rightarrow> string \<times> int \<times> int" where
  "parseSuffix_loop [] s = (s, 1, 1)"
| "parseSuffix_loop ((unit, mul, dv) # vs) s =
     (if HasSuffix s unit then (take (length s - length unit) s, mul, dv)
      else parseSuffix_loop vs s)"

definition parseSuffix :: "string \<Rightarrow> string \<times> int \<times> int" where
  "parseSuffix s = parseSuffix_loop uomSuffixes s"

text \<open>
  \<open>strconv.ParseInt(s, 10, 64)\<close> of the Go standard library, which \<open>ParseLimit\<close> calls.
  \<open>ParseUint\<close> reads the digits into a \<open>uint64\<close> (an \<open>int\<close> kept within
  \<open>0 .. maxUint64\<close> by the two overflow checks): a byte that is not a decimal digit is a
  syntax error; \<open>cutoff = maxUint64/10 + 1\<close> guards the multiplication and the comparison
  with \<open>maxVal\<close> the addition. \<open>ParseInt\<close> takes off one sign and checks the range of
  \<open>int64\<close>.
\<close>

datatype numError = ErrSyntax | ErrRange

definition isDigit :: "char \<Rightarrow> bool" where
  "isDigit c = (48 \<le> (of_char c :: int) \<and> (of_char c :: int) \<le> 57)"

definition digitVal :: "char \<Rightarrow> int" where
  "digitVal c = of_char c - 48"

definition maxUint64 :: int where
  "maxUint64 = 2 ^ 64 - 1"

fun ParseUint_loop :: "int \<Rightarrow> string \<Rightarrow> numError + int" where
  "ParseUint_loop n [] = Inr n"
| "ParseUint_loop n (c # cs) =
     (if \<not> isDigit c then Inl ErrSyntax
      else if n \<ge> maxUint64 div 10 + 1 then Inl ErrRange
      else let n1 = n * 10 + digitVal c in
        if n1 > maxUint64 then Inl ErrRange else ParseUint_loop n1 cs)"

definition ParseUint :: "string \<Rightarrow> numError + int" where
  "ParseUint s = (if s = [] then Inl ErrSyntax else ParseUint_loop 0 s)"

definition ParseInt :: "string \<Rightarrow> numError + int" where
  "ParseInt s =
     (if s = [] then Inl ErrSyntax
      else
        let neg = (hd s = CHR ''-'');
            s1 = (if hd s = CHR ''+'' \<or> hd s = CHR ''-'' then tl s else s)
        in case ParseUint s1 of
             Inl e \<Rightarrow> Inl e
           | Inr un \<Rightarrow>
               if \<not> neg \<and> un \<ge> 2 ^ 63 then Inl ErrRange
               else if neg \<and> un > 2 ^ 63 then Inl ErrRange
               else let n = wrap64 un in Inr (if neg then wrap64 (- n) else n))"

text \<open>
  \<open>ParseLimit\<close>: the two errors are the two \<open>fmt.Errorf\<close> calls, each carrying the input.
  \<open>bytesPerSecond *= mul\<close> wraps in \<open>int64\<close>; \<open>bytesPerSecond /= div\<close> truncates.
\<close>

datatype limitError = FailedToParse string | NegativeValue string

definition ParseLimit :: "string \<Rightarrow> limitError + int" where
  "ParseLimit s =
     (case parseSuffix s of (numberString, mul, dv) \<Rightarrow>
        (case ParseInt numberString of
           Inl e \<Rightarrow> Inl (FailedToParse s)
         | Inr n \<Rightarrow>
             let bytesPerSecond = wrap64 (n * mul);
                 bytesPerSecond = wrap64 (quo bytesPerSecond dv)
             in if bytesPerSecond < 0 then Inl (NegativeValue s) else Inr bytesPerSecond))"

section \<open>Burst sizing\<close>

definition MinBurstSize :: int where
  "MinBurstSize = 1"

definition MaxBurstSize :: int where
  "MaxBurstSize = 64 * 1024"

text \<open>
  \<open>rate.Limit\<close> is a \<open>float64\<close>. The two operations \<open>GetGoodBurst\<close> applies to it, the
  comparison with \<open>0\<close> and the conversion \<open>int64(l)\<close>, are exact on the value a float
  denotes, so a finite float is modelled by the real number it stands for.

  \<open>int64(l)\<close> drops the fraction (truncation towards zero). When the truncated value is
  outside \<open>int64\<close>, or \<open>l\<close> is an infinity or a NaN, the Go specification leaves the
  result to the implementation: the model takes that result from the parameter \<open>oor\<close>.
  On amd64 the conversion instruction yields \<open>-2^63\<close> for every such operand
  (\<open>amd64_oor\<close>).
\<close>

datatype float64 = Finite real | PosInf | NegInf | NaN

definition trunc :: "real \<Rightarrow> int" where
  "trunc r = (if 0 \<le> r then \<lfloor>r\<rfloor> else \<lceil>r\<rceil>)"

fun int64_of_float :: "(float64 \<Rightarrow> int) \<Rightarrow> float64 \<Rightarrow> int" where
  "int64_of_float oor (Finite r) =
     (if - (2 ^ 63) \<le> trunc r \<and> trunc r < 2 ^ 63 then trunc r else wrap64 (oor (Finite r)))"
| "int64_of_float oor PosInf = wrap64 (oor PosInf)"
| "int64_of_float oor NegInf = wrap64 (oor NegInf)"
| "int64_of_float oor NaN = wrap64 (oor NaN)"

definition amd64_oor :: "float64 \<Rightarrow> int" where
  "amd64_oor x = - (2 ^ 63)"

definition GetGoodBurst :: "(float64 \<Rightarrow> int) \<Rightarrow> float64 \<Rightarrow> int" where
  "GetGoodBurst oor l =
     (if l = Finite 0 then MaxBurstSize
      else
        let burstSize = quo (int64_of_float oor l) 20 in
        if burstSize < MinBurstSize then MinBurstSize
        else if burstSize > MaxBurstSize then MaxBurstSize
        else burstSize)"

text \<open>The clamp of the specification, for comparison.\<close>

definition clamp :: "int \<Rightarrow> int \<Rightarrow> int \<Rightarrow> int" where
  "clamp x lo hi = max lo (min hi x)"

section \<open>The rate-limited connection\<close>

text \<open>
  \<open>time.Time\<close> is an instant, counted in nanoseconds from the zero \<open>Time\<close>; a
  \<open>time.Duration\<close> is a number of nanoseconds.
\<close>

type_synonym time = int

definition IsZero :: "time \<Rightarrow> bool" where
  "IsZero t = (t = 0)"

definition Before :: "time \<Rightarrow> time \<Rightarrow> bool" where
  "Before t u = (t < u)"

text \<open>
  The token bucket is \<open>golang.org/x/time/rate\<close>, outside the repository: its operations
  are a parameter, over a limiter state \<open>'l\<close>. \<open>ReserveN L l now n\<close> is the limiter
  after \<open>l.ReserveN(now, n)\<close> together with the reservation's \<open>DelayFrom(now)\<close>.
\<close>

record 'l Limiter =
  rate_NewLimiter :: "float64 \<Rightarrow> int \<Rightarrow> 'l"
  Burst :: "'l \<Rightarrow> int"
  ReserveN :: "'l \<Rightarrow> time \<Rightarrow> int \<Rightarrow> 'l \<times> int"

definition NewLimiter :: "(float64 \<Rightarrow> int) \<Rightarrow> 'l Limiter \<Rightarrow> float64 \<Rightarrow> 'l" where
  "NewLimiter oor L limit = rate_NewLimiter L limit (GetGoodBurst oor limit)"

text \<open>
  The wrapped \<open>net.Conn\<close> is a parameter too: a state \<open>'c\<close> and, for each method the
  wrapper calls, the state after the call and what the call returns (\<open>None\<close> is a
  \<open>nil\<close> error). The bytes a \<open>Read\<close> leaves in the caller's buffer are not modelled.
\<close>

record ('c, 'e) Conn =
  inner_Read :: "'c \<Rightarrow> char list \<Rightarrow> 'c \<times> int \<times> 'e option"
  inner_Write :: "'c \<Rightarrow> char list \<Rightarrow> 'c \<times> int \<times> 'e option"
  inner_Close :: "'c \<Rightarrow> 'c \<times> 'e option"
  inner_SetReadDeadline :: "'c \<Rightarrow> time \<Rightarrow> 'c \<times> 'e option"
  inner_SetWriteDeadline :: "'c \<Rightarrow> time \<Rightarrow> 'c \<times> 'e option"

text \<open>
  The struct. \<open>limiter\<close> is a pointer: a reference \<open>'p\<close> into a store of limiter
  states that every call takes and returns, so connections built on one limiter share it.
  \<open>close\<close> is the channel, which is only ever closed, never sent on.
\<close>

datatype chan = Open | Closed

record ('c, 'p) LimitedConnection =
  inner :: 'c
  limiter :: 'p
  readNotBefore :: time
  writeNotBefore :: time
  readDeadline :: time
  writeDeadline :: time
  close :: chan

text \<open>\<open>timeoutError\<close> and the errors a call can return.\<close>

datatype timeoutError = timeoutError

definition Error :: "timeoutError \<Rightarrow> string" where
  "Error e = ''deadline exceeded''"

definition Timeout :: "timeoutError \<Rightarrow> bool" where
  "Timeout e = True"

definition Temporary :: "timeoutError \<Rightarrow> bool" where
  "Temporary e = True"

datatype 'e error = ErrClosedPipe | TimeoutErr timeoutError | InnerErr 'e

text \<open>A call returns or panics.\<close>

datatype 'a outcome = Return 'a | Panic string

text \<open>
  What one call observes of its surroundings: the two readings of \<open>time.Now()\<close>, and for
  each of the two waits the case of \<open>waitUntil\<close>'s \<open>select\<close> that was taken, the timer's
  or the closed channel's (closed by \<open>Close\<close> on another goroutine, or before the call).
  A call is modelled on its own: what other goroutines do to the limiters while it runs
  is not part of it.
\<close>

datatype wake = TimerFired | CloseSignalled

record schedule =
  now_entry :: time
  wake_pre :: wake
  now_after :: time
  wake_post :: wake

definition waitUntil :: "wake \<Rightarrow> time \<Rightarrow> bool" where
  "waitUntil w t = (case w of TimerFired \<Rightarrow> False | CloseSignalled \<Rightarrow> True)"

text \<open>
  The calls a \<open>Read\<close> or \<open>Write\<close> makes, in order: a wait until an instant, the
  underlying read or write on a chunk, a reservation of \<open>n\<close> tokens at an instant.
\<close>

datatype event = EvWait time | EvInner "char list" | EvReserve time int


fun isReserve :: "event \<Rightarrow> bool" where
  "isReserve (EvReserve t n) = True"
| "isReserve e = False"

record ('c, 'p, 'l, 'e) ret =
  ret_n :: int
  ret_err :: "'e error option"
  ret_conn :: "('c, 'p) LimitedConnection"
  ret_limiters :: "'p \<Rightarrow> 'l"
  ret_trace :: "event list"

text \<open>
  \<open>NewLimitedConnection\<close>: \<open>bufSize\<close> is computed and not used; the fields the literal
  leaves out are zero values.
\<close>

definition NewLimitedConnection ::
  "'l Limiter \<Rightarrow> ('p \<Rightarrow> 'l) \<Rightarrow> 'c \<Rightarrow> 'p \<Rightarrow> ('c, 'p) LimitedConnection" where
  "NewLimitedConnection L h i lp =
     (let bufSize = Burst L (h lp);
          bufSize = (if bufSize > MaxBurstSize then MaxBurstSize else bufSize)
      in \<lparr>inner = i, limiter = lp, readNotBefore = 0, writeNotBefore = 0,
           readDeadline = 0, writeDeadline = 0, close = Open\<rparr>)"

text \<open>
  \<open>rateLimitLoop\<close> gets pointers to two fields of the connection: a pointer is the
  field's name.
\<close>

datatype timeField = ReadNotBefore | WriteNotBefore | ReadDeadline | WriteDeadline

fun load :: "('c, 'p) LimitedConnection \<Rightarrow> timeField \<Rightarrow> time" where
  "load c ReadNotBefore = readNotBefore c"
| "load c WriteNotBefore = writeNotBefore c"
| "load c ReadDeadline = readDeadline c"
| "load c WriteDeadline = writeDeadline c"

fun store :: "('c, 'p) LimitedConnection \<Rightarrow> timeField \<Rightarrow> time \<Rightarrow> ('c, 'p) LimitedConnection" where
  "store c ReadNotBefore t = c\<lparr>readNotBefore := t\<rparr>"
| "store c WriteNotBefore t = c\<lparr>writeNotBefore := t\<rparr>"
| "store c ReadDeadline t = c\<lparr>readDeadline := t\<rparr>"
| "store c WriteDeadline t = c\<lparr>writeDeadline := t\<rparr>"

text \<open>The wait target before the I/O (\<open>until\<close> after lines 71-78; \<open>0\<close> is the zero \<open>Time\<close>).\<close>

definition preWaitTarget :: "time \<Rightarrow> time \<Rightarrow> time \<Rightarrow> time" where
  "preWaitTarget now notBefore deadline =
     (if Before now notBefore then
        (if \<not> IsZero deadline \<and> Before deadline notBefore then deadline else notBefore)
      else 0)"

text \<open>
  \<open>rateLimitLoop\<close>. The slice expression \<open>b[cntr:][:burst]\<close> panics when \<open>burst\<close> is
  negative; \<open>cntr\<close> is still \<open>0\<close> there.
\<close>

definition rateLimitLoop ::
  "'l Limiter \<Rightarrow> schedule \<Rightarrow> ('p \<Rightarrow> 'l) \<Rightarrow> ('c, 'p) LimitedConnection \<Rightarrow> timeField \<Rightarrow> timeField \<Rightarrow>
     ('c \<Rightarrow> char list \<Rightarrow> 'c \<times> int \<times> 'e option) \<Rightarrow> char list \<Rightarrow> ('c, 'p, 'l, 'e) ret outcome" where
  "rateLimitLoop L S h c notBefore deadline innerAct b =
     (if length b = 0 then
        (case innerAct (inner c) b of (i, n, e) \<Rightarrow>
           Return \<lparr>ret_n = n, ret_err = map_option InnerErr e, ret_conn = c\<lparr>inner := i\<rparr>,
                   ret_limiters = h, ret_trace = [EvInner b]\<rparr>)
      else
        let now = now_entry S;
            until = preWaitTarget now (load c notBefore) (load c deadline);
            waited = (if \<not> IsZero until then [EvWait until] else [])
        in
        if \<not> IsZero until \<and> waitUntil (wake_pre S) until then
          Return \<lparr>ret_n = 0, ret_err = Some ErrClosedPipe, ret_conn = c,
                  ret_limiters = h, ret_trace = waited\<rparr>
        else
          let burst = Burst L (h (limiter c));
              burst = (if burst > int (length b) - 0 then int (length b) - 0 else burst)
          in
          if burst < 0 then Panic ''slice bounds out of range''
          else
            let chunk = take (nat burst) (drop 0 b) in
            case innerAct (inner c) chunk of (i, n, e) \<Rightarrow>
              let c1 = c\<lparr>inner := i\<rparr>;
                  io = waited @ [EvInner chunk]
              in
              if n = 0 then
                Return \<lparr>ret_n = 0, ret_err = map_option InnerErr e, ret_conn = c1,
                        ret_limiters = h, ret_trace = io\<rparr>
              else
                let cntr = 0 + n;
                    now = now_after S
                in
                case ReserveN L (h (limiter c1)) now n of (lim', delay) \<Rightarrow>
                  let h' = h(limiter c1 := lim');
                      act = now + delay;
                      tr = io @ [EvReserve now n]
                  in
                  if Before now act then
                    if \<not> IsZero (load c1 deadline) \<and> Before (load c1 deadline) act then
                      Return \<lparr>ret_n = cntr, ret_err = Some (TimeoutErr timeoutError),
                              ret_conn = store c1 notBefore act,
                              ret_limiters = h', ret_trace = tr\<rparr>
                    else if \<not> IsZero act then
                      if waitUntil (wake_post S) act then
                        Return \<lparr>ret_n = cntr, ret_err = Some ErrClosedPipe, ret_conn = c1,
                                ret_limiters = h', ret_trace = tr @ [EvWait act]\<rparr>
                      else
                        Return \<lparr>ret_n = cntr, ret_err = map_option InnerErr e, ret_conn = c1,
                                ret_limiters = h', ret_trace = tr @ [EvWait act]\<rparr>
                    else
                      Return \<lparr>ret_n = cntr, ret_err = map_option InnerErr e, ret_conn = c1,
                              ret_limiters = h', ret_trace = tr\<rparr>
                  else
                    Return \<lparr>ret_n = cntr, ret_err = map_option InnerErr e, ret_conn = c1,
                            ret_limiters = h', ret_trace = tr\<rparr>)"

definition Read ::
  "'l Limiter \<Rightarrow> ('c, 'e) Conn \<Rightarrow> schedule \<Rightarrow> ('p \<Rightarrow> 'l) \<Rightarrow> ('c, 'p) LimitedConnection \<Rightarrow>
     char list \<Rightarrow> ('c, 'p, 'l, 'e) ret outcome" where
  "Read L N S h c b = rateLimitLoop L S h c ReadNotBefore ReadDeadline (inner_Read N) b"

definition Write ::
  "'l Limiter \<Rightarrow> ('c, 'e) Conn \<Rightarrow> schedule \<Rightarrow> ('p \<Rightarrow> 'l) \<Rightarrow> ('c, 'p) LimitedConnection \<Rightarrow>
     char list \<Rightarrow> ('c, 'p, 'l, 'e) ret outcome" where
  "Write L N S h c b = rateLimitLoop L S h c WriteNotBefore WriteDeadline (inner_Write N) b"

text \<open>The deadline setters, and \<open>Close\<close>: closing a closed channel panics.\<close>

definition SetReadDeadline ::
  "('c, 'e) Conn \<Rightarrow> ('c, 'p) LimitedConnection \<Rightarrow> time \<Rightarrow> ('c, 'p) LimitedConnection \<times> 'e option" where
  "SetReadDeadline N c t =
     (case inner_SetReadDeadline N (inner c) t of (i, res) \<Rightarrow>
        (c\<lparr>readDeadline := t, inner := i\<rparr>, res))"

definition SetWriteDeadline ::
  "('c, 'e) Conn \<Rightarrow> ('c, 'p) LimitedConnection \<Rightarrow> time \<Rightarrow> ('c, 'p) LimitedConnection \<times> 'e option" where
  "SetWriteDeadline N c t =
     (case inner_SetWriteDeadline N (inner c) t of (i, res) \<Rightarrow>
        (c\<lparr>writeDeadline := t, inner := i\<rparr>, res))"

definition SetDeadline ::
  "('c, 'e) Conn \<Rightarrow> ('c, 'p) LimitedConnection \<Rightarrow> time \<Rightarrow> ('c, 'p) LimitedConnection \<times> 'e option" where
  "SetDeadline N c t =
     (case SetReadDeadline N c t of
        (c1, Some err) \<Rightarrow> (c1, Some err)
      | (c1, None) \<Rightarrow> SetWriteDeadline N c1 t)"

definition Close ::
  "('c, 'e) Conn \<Rightarrow> ('c, 'p) LimitedConnection \<Rightarrow> (('c, 'p) LimitedConnection \<times> 'e option) outcome" where
  "Close N c =
     (case close c of
        Closed \<Rightarrow> Panic ''close of closed channel''
      | Open \<Rightarrow>
          (case inner_Close N (inner c) of (i, res) \<Rightarrow>
             Return (c\<lparr>close := Closed, inner := i\<rparr>, res)))"

section \<open>Vocabulary of the properties\<close>

text \<open>The number a string of decimal digits denotes.\<close>

definition decimal :: "string \<Rightarrow> int" where
  "decimal ds = foldl (\<lambda>n c. n * 10 + digitVal c) 0 ds"

text \<open>
  \<open>Read\<close> and \<open>Write\<close> under one name, with the pointers each of them passes to
  \<open>rateLimitLoop\<close>.
\<close>

datatype direction = Reading | Writing

definition call ::
  "direction \<Rightarrow> 'l Limiter \<Rightarrow> ('c, 'e) Conn \<Rightarrow> schedule \<Rightarrow> ('p \<Rightarrow> 'l) \<Rightarrow> ('c, 'p) LimitedConnection \<Rightarrow>
     char list \<Rightarrow> ('c, 'p, 'l, 'e) ret outcome" where
  "call d L N S h c b = (case d of Reading \<Rightarrow> Read L N S h c b | Writing \<Rightarrow> Write L N S h c b)"

fun notBeforeOf :: "direction \<Rightarrow> timeField" where
  "notBeforeOf Reading = ReadNotBefore"
| "notBeforeOf Writing = WriteNotBefore"

fun deadlineOf :: "direction \<Rightarrow> timeField" where
  "deadlineOf Reading = ReadDeadline"
| "deadlineOf Writing = WriteDeadline"

fun innerOf :: "direction \<Rightarrow> ('c, 'e) Conn \<Rightarrow> 'c \<Rightarrow> char list \<Rightarrow> 'c \<times> int \<times> 'e option" where
  "innerOf Reading N = inner_Read N"
| "innerOf Writing N = inner_Write N"

fun opposite :: "direction \<Rightarrow> direction" where
  "opposite Reading = Writing"
| "opposite Writing = Reading"

text \<open>The chunk of a call on buffer \<open>b\<close> under a burst: the first \<open>min burst (len b)\<close> bytes.\<close>

definition chunkOf :: "int \<Rightarrow> char list \<Rightarrow> char list" where
  "chunkOf burst b = take (nat (min burst (int (length b)))) b"

text \<open>
  A trace with no wait before the I/O: the underlying call comes first, and a wait, if
  there is one, comes last, right after the reservation.
\<close>

fun waitsOnlyOnReservation :: "event list \<Rightarrow> bool" where
  "waitsOnlyOnReservation [EvInner chunk] = True"
| "waitsOnlyOnReservation [EvInner chunk, EvReserve t n] = True"
| "waitsOnlyOnReservation [EvInner chunk, EvReserve t n, EvWait u] = True"
| "waitsOnlyOnReservation tr = False"

text \<open>Two calls of \<open>Close\<close> in a row on one connection.\<close>

definition CloseTwice ::
  "('c, 'e) Conn \<Rightarrow> ('c, 'p) LimitedConnection \<Rightarrow> (('c, 'p) LimitedConnection \<times> 'e option) outcome" where
  "CloseTwice N c =
     (case Close N c of
        Panic m \<Rightarrow> Panic m
      | Return (c1, res) \<Rightarrow> Close N c1)"

text \<open>
  A limiter and a connection to run the model on. The limiter's state is its burst and
  the instant up to which tokens are spoken for; a token takes ten nanoseconds. The
  connection counts its calls, transfers every chunk whole and never fails.
\<close>

definition exampleLimiter :: "(int \<times> time) Limiter" where
  "exampleLimiter =
     \<lparr>rate_NewLimiter = (\<lambda>limit burst. (burst, 0)),
      Burst = fst,
      ReserveN = (\<lambda>l now n. let t = max (snd l) now + 10 * n in ((fst l, t), t - now))\<rparr>"

definition exampleConn :: "(nat, string) Conn" where
  "exampleConn =
     \<lparr>inner_Read = (\<lambda>k chunk. (Suc k, int (length chunk), None)),
      inner_Write = (\<lambda>k chunk. (Suc k, int (length chunk), None)),
      inner_Close = (\<lambda>k. (Suc k, None)),
      inner_SetReadDeadline = (\<lambda>k t. (Suc k, None)),
      inner_SetWriteDeadline = (\<lambda>k t. (Suc k, None))\<rparr>"

text \<open>A connection whose underlying calls transfer nothing, as at the end of a stream.\<close>

definition eofConn :: "(nat, string) Conn" where
  "eofConn =
     \<lparr>inner_Read = (\<lambda>k chunk. (Suc k, 0, Some ''EOF'')),
      inner_Write = (\<lambda>k chunk. (Suc k, 0, None)),
      inner_Close = (\<lambda>k. (Suc k, None)),
      inner_SetReadDeadline = (\<lambda>k t. (Suc k, None)),
      inner_SetWriteDeadline = (\<lambda>k t. (Suc k, None))\<rparr>"

definition exampleLimiters :: "nat \<Rightarrow> int \<times> time" where
  "exampleLimiters p = (2, 0)"

definition exampleConnection :: "(nat, nat) LimitedConnection" where
  "exampleConnection = NewLimitedConnection exampleLimiter exampleLimiters 0 0"

text \<open>
  A schedule in which both timers fire, and the instants used with it: the call is
  entered at 100, the I/O is over at 110.
\<close>

definition exampleSchedule :: schedule where
  "exampleSchedule = \<lparr>now_entry = 100, wake_pre = TimerFired, now_after = 110, wake_post = TimerFired\<rparr>"

section \<open>Parsing: lemmas\<close>

lemmas parse_eval = ParseLimit_def parseSuffix_def uomSuffixes_def HasSuffix_def ParseInt_def
  ParseUint_def isDigit_def digitVal_def maxUint64_def wrap64_def quo_def

lemma foldl_digits_ge:
  "list_all isDigit cs \<Longrightarrow> 0 \<le> n \<Longrightarrow> n \<le> foldl (\<lambda>n c. n * 10 + digitVal c) n cs"
proof (induction cs arbitrary: n)
  case Nil
  then show ?case by simp
next
  case (Cons c cs)
  have d: "0 \<le> digitVal c" using Cons.prems(1) by (simp add: isDigit_def digitVal_def)
  have "n * 10 + digitVal c \<le> foldl (\<lambda>n c. n * 10 + digitVal c) (n * 10 + digitVal c) cs"
    using Cons.IH[of "n * 10 + digitVal c"] Cons.prems d by simp
  then show ?case using d Cons.prems(2) by simp
qed

lemma ParseUint_loop_digits:
  "list_all isDigit cs \<Longrightarrow> 0 \<le> n \<Longrightarrow> foldl (\<lambda>n c. n * 10 + digitVal c) n cs \<le> maxUint64
   \<Longrightarrow> ParseUint_loop n cs = Inr (foldl (\<lambda>n c. n * 10 + digitVal c) n cs)"
proof (induction cs arbitrary: n)
  case Nil
  then show ?case by simp
next
  case (Cons c cs)
  let ?n1 = "n * 10 + digitVal c"
  have dig: "isDigit c" and rest: "list_all isDigit cs" using Cons.prems(1) by simp_all
  have d: "0 \<le> digitVal c" using dig by (simp add: isDigit_def digitVal_def)
  have n1: "0 \<le> ?n1" using d Cons.prems(2) by simp
  have le: "?n1 \<le> foldl (\<lambda>n c. n * 10 + digitVal c) ?n1 cs"
    using foldl_digits_ge[OF rest n1] .
  have bound: "?n1 \<le> maxUint64" using le Cons.prems(3) by simp
  have cut: "\<not> n \<ge> maxUint64 div 10 + 1" using bound d by (simp add: maxUint64_def)
  have "ParseUint_loop ?n1 cs = Inr (foldl (\<lambda>n c. n * 10 + digitVal c) ?n1 cs)"
    using Cons.IH[OF rest n1] Cons.prems(3) by simp
  then show ?case using dig cut bound by (simp add: Let_def)
qed

lemma decimal_nonneg: "list_all isDigit ds \<Longrightarrow> 0 \<le> decimal ds"
  using foldl_digits_ge[of ds 0] by (simp add: decimal_def)

lemma ParseInt_digits:
  assumes "ds \<noteq> []" "list_all isDigit ds" "decimal ds < 2 ^ 63"
  shows "ParseInt ds = Inr (decimal ds)"
proof -
  have hd: "isDigit (hd ds)" using assms(1,2) by (cases ds) simp_all
  have nosign: "hd ds \<noteq> CHR ''+''" "hd ds \<noteq> CHR ''-''"
    using hd by (auto simp add: isDigit_def)
  have "decimal ds \<le> maxUint64" using assms(3) by (simp add: maxUint64_def)
  then have pu: "ParseUint ds = Inr (decimal ds)"
    using ParseUint_loop_digits[of ds 0] assms(1,2) by (simp add: ParseUint_def decimal_def)
  have nn: "0 \<le> decimal ds" using decimal_nonneg[OF assms(2)] .
  have w: "wrap64 (decimal ds) = decimal ds" using nn assms(3) by (simp add: wrap64_def)
  show ?thesis using assms(1,3) nosign pu w by (simp add: ParseInt_def Let_def)
qed

lemma HasSuffix_last: "HasSuffix s v \<Longrightarrow> v \<noteq> [] \<Longrightarrow> last s = last v"
proof -
  assume a: "HasSuffix s v" "v \<noteq> []"
  then have "drop (length s - length v) s = v" by (simp add: HasSuffix_def)
  then have "s = take (length s - length v) s @ v" by (metis append_take_drop_id)
  then have "last s = last (take (length s - length v) s @ v)" by simp
  then show ?thesis using a(2) by simp
qed

lemma HasSuffix_append_eq: "length v = length u \<Longrightarrow> HasSuffix (ds @ u) v = (v = u)"
  by (auto simp add: HasSuffix_def)

lemma HasSuffix_append_Suc:
  "length v = Suc (length u) \<Longrightarrow> ds \<noteq> [] \<Longrightarrow> HasSuffix (ds @ u) v \<Longrightarrow> hd v = last ds"
proof -
  assume a: "length v = Suc (length u)" "ds \<noteq> []" "HasSuffix (ds @ u) v"
  have "drop (length ds - 1) (ds @ u) = v" using a by (simp add: HasSuffix_def)
  then have "drop (length ds - 1) ds @ u = v" using a(2) by simp
  moreover have "drop (length ds - 1) ds = [last ds]" using a(2)
    by (metis One_nat_def append_butlast_last_id append_eq_conv_conj length_butlast)
  ultimately show ?thesis by auto
qed

lemma parseSuffix_grammar:
  assumes ne: "ds \<noteq> []" and dig: "list_all isDigit ds"
    and u: "(u, m, d) \<in> set uomSuffixes \<or> (u, m, d) = ([], 1, 1)"
  shows "parseSuffix (ds @ u) = (ds, m, d)"
proof -
  have l: "isDigit (last ds)" using ne dig by (simp add: list_all_iff)
  have nl: "last ds \<noteq> CHR ''K''" "last ds \<noteq> CHR ''M''" "last ds \<noteq> CHR ''G''" "last ds \<noteq> CHR ''s''"
    using l by (auto simp add: isDigit_def)
  have s4: "\<And>v w. length v = 4 \<Longrightarrow> length w = 3 \<Longrightarrow> hd v \<noteq> last ds \<Longrightarrow> \<not> HasSuffix (ds @ w) v"
    using HasSuffix_append_Suc[OF _ ne] by fastforce
  have s0: "\<And>v. v \<noteq> [] \<Longrightarrow> last v \<noteq> last ds \<Longrightarrow> \<not> HasSuffix ds v"
    using HasSuffix_last by fastforce
  have k1: "parseSuffix (ds @ ''Kbps'') = (ds, 1000, 8)"
    by (simp add: parseSuffix_def uomSuffixes_def HasSuffix_append_eq)
  have k2: "parseSuffix (ds @ ''Mbps'') = (ds, 1000000, 8)"
    by (simp add: parseSuffix_def uomSuffixes_def HasSuffix_append_eq)
  have k3: "parseSuffix (ds @ ''Gbps'') = (ds, 1000000000, 8)"
    by (simp add: parseSuffix_def uomSuffixes_def HasSuffix_append_eq)
  have k4: "parseSuffix (ds @ ''KBps'') = (ds, 1024, 1)"
    by (simp add: parseSuffix_def uomSuffixes_def HasSuffix_append_eq)
  have k5: "parseSuffix (ds @ ''MBps'') = (ds, 1048576, 1)"
    by (simp add: parseSuffix_def uomSuffixes_def HasSuffix_append_eq)
  have k6: "parseSuffix (ds @ ''GBps'') = (ds, 1073741824, 1)"
    by (simp add: parseSuffix_def uomSuffixes_def HasSuffix_append_eq)
  have k7: "parseSuffix (ds @ ''bps'') = (ds, 1, 8)"
    using nl by (simp add: parseSuffix_def uomSuffixes_def HasSuffix_append_eq s4)
  have k8: "parseSuffix (ds @ ''Bps'') = (ds, 1, 1)"
    using nl by (simp add: parseSuffix_def uomSuffixes_def HasSuffix_append_eq s4)
  have k9: "parseSuffix ds = (ds, 1, 1)"
    using nl s0 by (simp add: parseSuffix_def uomSuffixes_def)
  have "u = ''Kbps'' \<and> m = 1000 \<and> d = 8 \<or> u = ''Mbps'' \<and> m = 1000000 \<and> d = 8
      \<or> u = ''Gbps'' \<and> m = 1000000000 \<and> d = 8 \<or> u = ''KBps'' \<and> m = 1024 \<and> d = 1
      \<or> u = ''MBps'' \<and> m = 1048576 \<and> d = 1 \<or> u = ''GBps'' \<and> m = 1073741824 \<and> d = 1
      \<or> u = ''bps'' \<and> m = 1 \<and> d = 8 \<or> u = ''Bps'' \<and> m = 1 \<and> d = 1
      \<or> u = [] \<and> m = 1 \<and> d = 1"
    using u unfolding uomSuffixes_def by simp
  then show ?thesis
    using k1 k2 k3 k4 k5 k6 k7 k8 k9 by (elim disjE conjE) simp_all
qed

lemma uom_positive:
  "(u, m, d) \<in> set uomSuffixes \<or> (u, m, d) = ([], 1, 1) \<Longrightarrow> 1 \<le> m \<and> (d = 1 \<or> d = 8)"
  by (simp add: uomSuffixes_def, elim disjE conjE, simp_all)

section \<open>Parsing: properties\<close>

text \<open>
  Claim C4 asks that \<open>ParseLimit\<close> fail whenever the numeric portion is a negative
  integer, as for \<open>"-5bps"\<close>. On this input the suffix \<open>bps\<close> is taken off, \<open>ParseInt\<close>
  accepts \<open>-5\<close>, and the division by 8 truncates \<open>-5\<close> to \<open>0\<close> before the sign is
  tested: the call returns \<open>0\<close> and no error.
\<close>

theorem ParseLimit_minus_5bps:
  "parseSuffix ''-5bps'' = (''-5'', 1, 8) \<and> ParseInt ''-5'' = Inr (- 5) \<and> ParseLimit ''-5bps'' = Inr 0"
  by (simp add: parse_eval)

text \<open>
  Claim C5 says that \<open>ParseLimit "100"\<close> is 12. It is not.
\<close>

theorem ParseLimit_100_is_not_12: "ParseLimit ''100'' \<noteq> Inr 12"
  by (simp add: parse_eval)

text \<open>
  Claim C5, amended: with no recognized unit suffix \<open>parseSuffix\<close> returns the string
  with multiplier 1 and divisor 1, so \<open>ParseLimit "100"\<close> is 100; the division by 8,
  which truncates, is that of the units \<open>bps\<close>, \<open>Kbps\<close>, \<open>Mbps\<close> and \<open>Gbps\<close>:
  \<open>ParseLimit "100bps"\<close> is 12.
\<close>

theorem ParseLimit_no_suffix:
  "parseSuffix ''100'' = (''100'', 1, 1) \<and> ParseLimit ''100'' = Inr 100 \<and> ParseLimit ''100bps'' = Inr 12"
  by (simp add: parse_eval)

text \<open>
  Claim C6 says that on a grammatical input (decimal digits, then possibly a unit) the
  value computed is never negative, so that the test for a negative value never fires.
  On ten thousand million \<open>GBps\<close> the multiplication wraps around in \<open>int64\<close> to a
  negative value and the test fires.
\<close>

theorem ParseLimit_grammatical_negative:
  "list_all isDigit ''10000000000'' \<and> (''GBps'', 1024 * 1024 * 1024, 1) \<in> set uomSuffixes
     \<and> ParseLimit (''10000000000'' @ ''GBps'') = Inl (NegativeValue ''10000000000GBps'')"
  by (simp add: parse_eval)

text \<open>
  Claim C6, amended: on a grammatical input whose number times the unit's multiplier is
  below \<open>2^63\<close>, \<open>ParseLimit\<close> returns that product divided by the unit's divisor, which
  is not negative: the test for a negative value does not fire.
\<close>

theorem ParseLimit_grammar:
  assumes ne: "ds \<noteq> []" and dig: "list_all isDigit ds"
    and u: "(u, m, d) \<in> set uomSuffixes \<or> (u, m, d) = ([], 1, 1)"
    and fits: "decimal ds * m < 2 ^ 63"
  shows "ParseLimit (ds @ u) = Inr (decimal ds * m div d) \<and> 0 \<le> decimal ds * m div d"
proof -
  have md: "1 \<le> m" "d = 1 \<or> d = 8" using uom_positive[OF u] by simp_all
  have nn: "0 \<le> decimal ds" using decimal_nonneg[OF dig] .
  have "decimal ds * 1 \<le> decimal ds * m" using nn md(1) by (intro mult_left_mono) simp_all
  then have small: "decimal ds < 2 ^ 63" using fits by simp
  have pi: "ParseInt ds = Inr (decimal ds)" using ParseInt_digits[OF ne dig small] .
  have p0: "0 \<le> decimal ds * m" using nn md(1) by simp
  have w1: "wrap64 (decimal ds * m) = decimal ds * m" using p0 fits by (simp add: wrap64_def)
  have q: "quo (decimal ds * m) d = decimal ds * m div d"
    using p0 md(2) by (auto simp add: quo_def)
  have q0: "0 \<le> decimal ds * m div d" using p0 md(2) by auto
  have "decimal ds * m div d \<le> decimal ds * m" using p0 md(2) by auto
  then have w2: "wrap64 (decimal ds * m div d) = decimal ds * m div d"
    using q0 fits by (simp add: wrap64_def)
  show ?thesis
    using parseSuffix_grammar[OF ne dig u] pi w1 q w2 q0 by (simp add: ParseLimit_def Let_def)
qed

theorem ParseLimit_grammar_witness:
  "list_all isDigit ''10'' \<and> (''Mbps'', 1000 * 1000, 8) \<in> set uomSuffixes
     \<and> decimal ''10'' * (1000 * 1000) < 2 ^ 63
     \<and> ParseLimit (''10'' @ ''Mbps'') = Inr (decimal ''10'' * (1000 * 1000) div 8)
     \<and> decimal ''10'' * (1000 * 1000) div 8 = 1250000"
  using ParseLimit_grammar[of "''10''" "''Mbps''" "1000 * 1000" 8]
  by (simp add: decimal_def digitVal_def isDigit_def uomSuffixes_def)

section \<open>Burst sizing: properties\<close>

lemma GetGoodBurst_range: "1 \<le> GetGoodBurst oor l \<and> GetGoodBurst oor l \<le> 65536"
  by (simp add: GetGoodBurst_def MinBurstSize_def MaxBurstSize_def Let_def)

lemma GetGoodBurst_zero: "GetGoodBurst oor (Finite 0) = 65536"
  by (simp add: GetGoodBurst_def MaxBurstSize_def)

lemma GetGoodBurst_in_range:
  assumes r: "0 < r" "r < 2 ^ 63"
  shows "GetGoodBurst oor (Finite r) = clamp \<lfloor>r / 20\<rfloor> 1 65536"
proof -
  have t: "trunc r = \<lfloor>r\<rfloor>" using r by (simp add: trunc_def)
  have f0: "0 \<le> \<lfloor>r\<rfloor>" using r by simp
  have f1: "\<lfloor>r\<rfloor> < 2 ^ 63" using r by (simp add: floor_less_iff)
  have q: "quo \<lfloor>r\<rfloor> 20 = \<lfloor>r\<rfloor> div 20" using f0 by (simp add: quo_def)
  have d: "\<lfloor>r / 20\<rfloor> = \<lfloor>r\<rfloor> div 20"
    using floor_divide_real_eq_div[of 20 r] by simp
  show ?thesis using r t f0 f1 q d
    by (auto simp add: GetGoodBurst_def MinBurstSize_def MaxBurstSize_def Let_def clamp_def)
qed

text \<open>
  Claim C7 says that for every rate above 0 the burst is the rate divided by 20,
  truncated, and clamped to \<open>[1, 65536]\<close>. At the rate \<open>2^63\<close> (which is what the
  \<open>float64\<close> conversion of the largest \<open>int64\<close> gives) the conversion \<open>int64(l)\<close> is out
  of range; where it yields \<open>-2^63\<close>, as on amd64, the burst is 1, and the clamped
  quotient is 65536.
\<close>

theorem GetGoodBurst_out_of_range:
  "GetGoodBurst amd64_oor (Finite (2 ^ 63)) = 1 \<and> clamp \<lfloor>(2 ^ 63 :: real) / 20\<rfloor> 1 65536 = 65536"
  by (simp add: GetGoodBurst_def MinBurstSize_def MaxBurstSize_def Let_def trunc_def
      amd64_oor_def wrap64_def quo_def clamp_def)

text \<open>
  Claim C7, amended: \<open>GetGoodBurst\<close> lies in \<open>[1, 65536]\<close> for every rate, whatever an
  out-of-range conversion yields; it is 65536 at the rate 0; and for a rate above 0 and
  below \<open>2^63\<close> it is the rate divided by 20, truncated to an integer and clamped to
  \<open>[1, 65536]\<close>.
\<close>

theorem GetGoodBurst_spec:
  "1 \<le> GetGoodBurst oor l \<and> GetGoodBurst oor l \<le> 65536
     \<and> GetGoodBurst oor (Finite 0) = 65536
     \<and> (0 < r \<and> r < 2 ^ 63 \<longrightarrow> GetGoodBurst oor (Finite r) = clamp \<lfloor>r / 20\<rfloor> 1 65536)"
  using GetGoodBurst_range[of oor l] GetGoodBurst_zero[of oor] GetGoodBurst_in_range[of r oor]
  by simp

theorem GetGoodBurst_spec_witness:
  "(0 :: real) < 1250000 \<and> (1250000 :: real) < 2 ^ 63
     \<and> GetGoodBurst amd64_oor (Finite 1250000) = clamp \<lfloor>(1250000 :: real) / 20\<rfloor> 1 65536
     \<and> GetGoodBurst amd64_oor (Finite 1250000) = 62500
     \<and> GetGoodBurst amd64_oor PosInf = 1
     \<and> GetGoodBurst amd64_oor (Finite 0) = 65536"
  using GetGoodBurst_spec[of amd64_oor PosInf 1250000]
  by (simp add: clamp_def GetGoodBurst_def MinBurstSize_def MaxBurstSize_def Let_def
      amd64_oor_def wrap64_def quo_def)

section \<open>The rate-limited connection: lemmas\<close>

lemma call_rateLimitLoop:
  "call d L N S h c b = rateLimitLoop L S h c (notBeforeOf d) (deadlineOf d) (innerOf d N) b"
  by (cases d) (simp_all add: call_def Read_def Write_def)

lemma burst_min:
  "(if B > int (length b) - 0 then int (length b) - 0 else B) = min B (int (length b))"
  by (simp add: min_def)

lemma load_store_same: "load (store c f t) f = t"
  by (cases f) simp_all

lemma close_store: "close (store c f t) = close c"
  by (cases f) simp_all

lemma rateLimitLoop_closed_pre:
  assumes "b \<noteq> []" and "\<not> IsZero (preWaitTarget (now_entry S) (load c nb) (load c dl))"
    and "wake_pre S = CloseSignalled"
  shows "rateLimitLoop L S h c nb dl act b =
           Return \<lparr>ret_n = 0, ret_err = Some ErrClosedPipe, ret_conn = c, ret_limiters = h,
                   ret_trace = [EvWait (preWaitTarget (now_entry S) (load c nb) (load c dl))]\<rparr>"
  using assms by (simp add: rateLimitLoop_def Let_def waitUntil_def)

lemma rateLimitLoop_empty:
  assumes "act (inner c) [] = (i, n, e)"
  shows "rateLimitLoop L S h c nb dl act [] =
           Return \<lparr>ret_n = n, ret_err = map_option InnerErr e, ret_conn = c\<lparr>inner := i\<rparr>,
                   ret_limiters = h, ret_trace = [EvInner []]\<rparr>"
  using assms by (simp add: rateLimitLoop_def)

lemma rateLimitLoop_zero:
  assumes "b \<noteq> []"
    and "IsZero (preWaitTarget (now_entry S) (load c nb) (load c dl)) \<or> wake_pre S = TimerFired"
    and "0 \<le> Burst L (h (limiter c))"
    and "act (inner c) (chunkOf (Burst L (h (limiter c))) b) = (i, 0, e)"
  shows "rateLimitLoop L S h c nb dl act b =
           Return \<lparr>ret_n = 0, ret_err = map_option InnerErr e, ret_conn = c\<lparr>inner := i\<rparr>,
                   ret_limiters = h,
                   ret_trace =
                     (if IsZero (preWaitTarget (now_entry S) (load c nb) (load c dl)) then []
                      else [EvWait (preWaitTarget (now_entry S) (load c nb) (load c dl))])
                     @ [EvInner (chunkOf (Burst L (h (limiter c))) b)]\<rparr>"
  using assms unfolding rateLimitLoop_def Let_def burst_min chunkOf_def
  by (auto simp add: waitUntil_def)

lemma rateLimitLoop_timeout:
  assumes "b \<noteq> []"
    and "IsZero (preWaitTarget (now_entry S) (load c nb) (load c dl)) \<or> wake_pre S = TimerFired"
    and "0 \<le> Burst L (h (limiter c))"
    and "act (inner c) (chunkOf (Burst L (h (limiter c))) b) = (i, n, e)" and "n \<noteq> 0"
    and "ReserveN L (h (limiter c)) (now_after S) n = (lim', delay)"
    and "Before (now_after S) (now_after S + delay)"
    and "\<not> IsZero (load c dl)" and "Before (load c dl) (now_after S + delay)"
  shows "rateLimitLoop L S h c nb dl act b =
           Return \<lparr>ret_n = n, ret_err = Some (TimeoutErr timeoutError),
                   ret_conn = store (c\<lparr>inner := i\<rparr>) nb (now_after S + delay),
                   ret_limiters = h(limiter c := lim'),
                   ret_trace =
                     (if IsZero (preWaitTarget (now_entry S) (load c nb) (load c dl)) then []
                      else [EvWait (preWaitTarget (now_entry S) (load c nb) (load c dl))])
                     @ [EvInner (chunkOf (Burst L (h (limiter c))) b), EvReserve (now_after S) n]\<rparr>"
proof -
  have ld: "load (c\<lparr>inner := i\<rparr>) dl = load c dl" by (cases dl) simp_all
  show ?thesis
    using assms unfolding rateLimitLoop_def Let_def burst_min chunkOf_def
    by (auto simp add: waitUntil_def ld)
qed


lemma no_pre_wait:
  assumes "load c nb = 0" and "0 \<le> now_entry S"
    and "rateLimitLoop L S h c nb dl act b = Return r"
  shows "waitsOnlyOnReservation (ret_trace r)"
proof -
  have t: "preWaitTarget (now_entry S) (load c nb) (load c dl) = 0"
    using assms(1,2) by (simp add: preWaitTarget_def Before_def)
  show ?thesis
    using assms(3) unfolding rateLimitLoop_def Let_def burst_min t
    by (auto simp add: IsZero_def split: prod.splits if_splits)
qed

lemma other_notBefore:
  assumes "rateLimitLoop L S h c (notBeforeOf d) dl act b = Return r"
  shows "load (ret_conn r) (notBeforeOf (opposite d)) = load c (notBeforeOf (opposite d))"
  using assms unfolding rateLimitLoop_def Let_def burst_min
  by (cases d) (auto split: prod.splits if_splits)


lemmas example_eval = call_def Read_def Write_def rateLimitLoop_def Let_def preWaitTarget_def
  IsZero_def Before_def waitUntil_def exampleLimiter_def exampleConn_def eofConn_def
  exampleLimiters_def exampleConnection_def exampleSchedule_def NewLimitedConnection_def
  MaxBurstSize_def chunkOf_def

lemma preWaitTarget_established:
  "0 \<le> now \<Longrightarrow> Before now notBefore \<Longrightarrow> \<not> IsZero (preWaitTarget now notBefore deadline)"
  by (auto simp add: preWaitTarget_def Before_def IsZero_def)

lemma negative_burst_panics:
  assumes "b \<noteq> []"
    and "IsZero (preWaitTarget (now_entry S) (load c nb) (load c dl)) \<or> wake_pre S = TimerFired"
    and "Burst L (h (limiter c)) < 0"
  shows "rateLimitLoop L S h c nb dl act b = Panic ''slice bounds out of range''"
  using assms unfolding rateLimitLoop_def Let_def burst_min
  by (auto simp add: waitUntil_def)

section \<open>The rate-limited connection: properties\<close>

text \<open>
  Claim C1: a \<open>Read\<close> or \<open>Write\<close> on a non-empty buffer got past the wait before the
  I/O, transferred \<open>n\<close> bytes (not zero, so tokens are reserved; the burst is not
  negative, so the chunk exists), and the reservation's instant \<open>now + delay\<close> is in the
  future while the direction's deadline is set and earlier than that instant. Then the
  call returns \<open>n\<close> and a \<open>timeoutError\<close>, whose \<open>Timeout\<close> and \<open>Temporary\<close> are true;
  that instant is now the direction's not-before timestamp; nothing follows the
  reservation in the trace, so the call did not wait for the tokens; and the channel
  \<open>close\<close> is as it was, so the connection is as usable as before.
\<close>

theorem timeout_when_deadline_precedes_reservation:
  assumes "b \<noteq> []"
    and "IsZero (preWaitTarget (now_entry S) (load c (notBeforeOf d)) (load c (deadlineOf d)))
           \<or> wake_pre S = TimerFired"
    and "0 \<le> Burst L (h (limiter c))"
    and "innerOf d N (inner c) (chunkOf (Burst L (h (limiter c))) b) = (i, n, e)" and "n \<noteq> 0"
    and "ReserveN L (h (limiter c)) (now_after S) n = (lim', delay)"
    and "Before (now_after S) (now_after S + delay)"
    and "\<not> IsZero (load c (deadlineOf d))"
    and "Before (load c (deadlineOf d)) (now_after S + delay)"
  shows "\<exists>r te. call d L N S h c b = Return r
           \<and> ret_n r = n \<and> ret_err r = Some (TimeoutErr te) \<and> Timeout te \<and> Temporary te
           \<and> ret_conn r = store (c\<lparr>inner := i\<rparr>) (notBeforeOf d) (now_after S + delay)
           \<and> load (ret_conn r) (notBeforeOf d) = now_after S + delay
           \<and> close (ret_conn r) = close c
           \<and> ret_limiters r = h(limiter c := lim')
           \<and> ret_trace r =
                (if IsZero (preWaitTarget (now_entry S) (load c (notBeforeOf d)) (load c (deadlineOf d)))
                 then []
                 else [EvWait (preWaitTarget (now_entry S) (load c (notBeforeOf d)) (load c (deadlineOf d)))])
                @ [EvInner (chunkOf (Burst L (h (limiter c))) b), EvReserve (now_after S) n]"
proof -
  have "call d L N S h c b =
          Return \<lparr>ret_n = n, ret_err = Some (TimeoutErr timeoutError),
                  ret_conn = store (c\<lparr>inner := i\<rparr>) (notBeforeOf d) (now_after S + delay),
                  ret_limiters = h(limiter c := lim'),
                  ret_trace =
                    (if IsZero (preWaitTarget (now_entry S) (load c (notBeforeOf d)) (load c (deadlineOf d)))
                     then []
                     else [EvWait (preWaitTarget (now_entry S) (load c (notBeforeOf d)) (load c (deadlineOf d)))])
                    @ [EvInner (chunkOf (Burst L (h (limiter c))) b), EvReserve (now_after S) n]\<rparr>"
    unfolding call_rateLimitLoop using assms by (rule rateLimitLoop_timeout)
  then show ?thesis
    by (simp add: load_store_same close_store Timeout_def Temporary_def)
qed

theorem timeout_when_deadline_precedes_reservation_witness:
  "call Reading exampleLimiter exampleConn exampleSchedule exampleLimiters
       (exampleConnection\<lparr>readDeadline := 120\<rparr>) ''abcd''
     = Return \<lparr>ret_n = 2, ret_err = Some (TimeoutErr timeoutError),
               ret_conn = exampleConnection\<lparr>inner := 1, readNotBefore := 130, readDeadline := 120\<rparr>,
               ret_limiters = exampleLimiters(0 := (2, 130)),
               ret_trace = [EvInner ''ab'', EvReserve 110 2]\<rparr>
   \<and> Timeout timeoutError \<and> Temporary timeoutError"
  using timeout_when_deadline_precedes_reservation[where b = "''abcd''" and S = exampleSchedule
      and c = "exampleConnection\<lparr>readDeadline := 120\<rparr>" and d = Reading and L = exampleLimiter
      and h = exampleLimiters and N = exampleConn and i = 1 and n = 2 and e = None
      and lim' = "(2, 130)" and delay = 20]
  by (simp add: example_eval Timeout_def Temporary_def)

text \<open>
  Claim C2 asks that a second \<open>Close\<close> on the same connection neither crash nor hang.
  The second \<open>Close\<close> closes the channel \<open>close\<close> again, which the first call has
  closed: it panics, before it reaches the underlying connection.
\<close>

theorem second_Close_panics:
  "CloseTwice N (NewLimitedConnection L h i lp) = Panic ''close of closed channel''"
  by (simp add: CloseTwice_def Close_def NewLimitedConnection_def Let_def split: prod.splits)

text \<open>
  Claim C3: a \<open>Read\<close> or \<open>Write\<close> on a non-empty buffer has a wait target before the
  I/O (\<open>until\<close> is not the zero \<open>Time\<close>), and the wait ends on the closed channel, not
  on the timer. Then the call returns 0 bytes and \<open>io.ErrClosedPipe\<close>; its trace is the
  wait alone, so the underlying connection was not called; connection and limiters are
  unchanged.
\<close>

theorem closed_during_pre_wait:
  assumes "b \<noteq> []"
    and "\<not> IsZero (preWaitTarget (now_entry S) (load c (notBeforeOf d)) (load c (deadlineOf d)))"
    and "wake_pre S = CloseSignalled"
  shows "call d L N S h c b =
           Return \<lparr>ret_n = 0, ret_err = Some ErrClosedPipe, ret_conn = c, ret_limiters = h,
                   ret_trace =
                     [EvWait (preWaitTarget (now_entry S) (load c (notBeforeOf d)) (load c (deadlineOf d)))]\<rparr>"
  unfolding call_rateLimitLoop using assms by (rule rateLimitLoop_closed_pre)

theorem closed_during_pre_wait_witness:
  "preWaitTarget 100 130 0 = 130
   \<and> call Writing exampleLimiter exampleConn (exampleSchedule\<lparr>wake_pre := CloseSignalled\<rparr>)
         exampleLimiters (exampleConnection\<lparr>writeNotBefore := 130\<rparr>) ''abcd''
     = Return \<lparr>ret_n = 0, ret_err = Some ErrClosedPipe,
               ret_conn = exampleConnection\<lparr>writeNotBefore := 130\<rparr>,
               ret_limiters = exampleLimiters, ret_trace = [EvWait 130]\<rparr>"
  using closed_during_pre_wait[where b = "''abcd''" and d = Writing
      and S = "exampleSchedule\<lparr>wake_pre := CloseSignalled\<rparr>"
      and c = "exampleConnection\<lparr>writeNotBefore := 130\<rparr>"
      and L = exampleLimiter and N = exampleConn and h = exampleLimiters]
  by (simp add: example_eval)



text \<open>
  Claim C9: the underlying call of a \<open>Read\<close> or \<open>Write\<close> (on the whole buffer when it is
  empty, else on the chunk, once the wait before the I/O is past) transfers zero bytes.
  Then the call returns 0 and the underlying error as it is; the limiters are unchanged
  and the trace holds no reservation; the connection differs from the one before in the
  state of the underlying connection alone, so the not-before timestamp is unchanged.
\<close>

theorem zero_transfer:
  assumes "b = [] \<or> IsZero (preWaitTarget (now_entry S) (load c (notBeforeOf d)) (load c (deadlineOf d)))
           \<or> wake_pre S = TimerFired"
    and "b = [] \<or> 0 \<le> Burst L (h (limiter c))"
    and "innerOf d N (inner c) (chunkOf (Burst L (h (limiter c))) b) = (i, 0, e)"
  shows "\<exists>r. call d L N S h c b = Return r
           \<and> ret_n r = 0 \<and> ret_err r = map_option InnerErr e
           \<and> ret_limiters r = h \<and> filter isReserve (ret_trace r) = []
           \<and> ret_conn r = c\<lparr>inner := i\<rparr>
           \<and> load (ret_conn r) (notBeforeOf d) = load c (notBeforeOf d)"
proof (cases "b = []")
  case True
  have "chunkOf (Burst L (h (limiter c))) [] = []" by (simp add: chunkOf_def)
  then have "innerOf d N (inner c) [] = (i, 0, e)" using assms(3) True by simp
  then have "call d L N S h c b =
      Return \<lparr>ret_n = 0, ret_err = map_option InnerErr e, ret_conn = c\<lparr>inner := i\<rparr>,
              ret_limiters = h, ret_trace = [EvInner []]\<rparr>"
    unfolding call_rateLimitLoop True by (rule rateLimitLoop_empty)
  then show ?thesis by (cases d) simp_all
next
  case False
  have "call d L N S h c b =
      Return \<lparr>ret_n = 0, ret_err = map_option InnerErr e, ret_conn = c\<lparr>inner := i\<rparr>,
              ret_limiters = h,
              ret_trace =
                (if IsZero (preWaitTarget (now_entry S) (load c (notBeforeOf d)) (load c (deadlineOf d)))
                 then []
                 else [EvWait (preWaitTarget (now_entry S) (load c (notBeforeOf d)) (load c (deadlineOf d)))])
                @ [EvInner (chunkOf (Burst L (h (limiter c))) b)]\<rparr>"
    unfolding call_rateLimitLoop using False assms by (intro rateLimitLoop_zero) simp_all
  then show ?thesis by (cases d) simp_all
qed

theorem zero_transfer_witness:
  "call Reading exampleLimiter eofConn exampleSchedule exampleLimiters exampleConnection ''abcd''
     = Return \<lparr>ret_n = 0, ret_err = Some (InnerErr ''EOF''),
               ret_conn = exampleConnection\<lparr>inner := 1\<rparr>,
               ret_limiters = exampleLimiters, ret_trace = [EvInner ''ab'']\<rparr>
   \<and> (\<exists>r. call Reading exampleLimiter eofConn exampleSchedule exampleLimiters exampleConnection
          ''abcd'' = Return r \<and> ret_limiters r = exampleLimiters
          \<and> filter isReserve (ret_trace r) = [] \<and> readNotBefore (ret_conn r) = 0)"
  using zero_transfer[where b = "''abcd''" and d = Reading and S = exampleSchedule
      and c = exampleConnection and L = exampleLimiter and N = eofConn and h = exampleLimiters
      and i = 1 and e = "Some ''EOF''"]
  by (simp add: example_eval)

text \<open>
  Claim C10: \<open>NewLimitedConnection\<close> returns a connection whose two not-before
  timestamps and two deadlines are zero. On a connection whose not-before timestamps
  are zero (a fresh one, with or without deadlines set since), with a clock that does
  not read before the zero \<open>Time\<close>, the first call in one direction and then the first
  call in the other, when they return, have traces with no wait before the underlying
  call: a wait, if there is one, follows the reservation.
\<close>

theorem first_calls_skip_pre_wait:
  assumes "readNotBefore c0 = 0" and "writeNotBefore c0 = 0"
    and "0 \<le> now_entry S1" and "0 \<le> now_entry S2"
    and "call d L N S1 h c0 b1 = Return r1"
    and "call (opposite d) L N S2 (ret_limiters r1) (ret_conn r1) b2 = Return r2"
  shows "readNotBefore (NewLimitedConnection L' h0 i lp) = 0
           \<and> writeNotBefore (NewLimitedConnection L' h0 i lp) = 0
           \<and> readDeadline (NewLimitedConnection L' h0 i lp) = 0
           \<and> writeDeadline (NewLimitedConnection L' h0 i lp) = 0
           \<and> waitsOnlyOnReservation (ret_trace r1) \<and> waitsOnlyOnReservation (ret_trace r2)"
proof -
  have nb: "load c0 (notBeforeOf d) = 0" "load c0 (notBeforeOf (opposite d)) = 0"
    using assms(1,2) by (cases d; simp)+
  have r1: "rateLimitLoop L S1 h c0 (notBeforeOf d) (deadlineOf d) (innerOf d N) b1 = Return r1"
    using assms(5) by (simp add: call_rateLimitLoop)
  have w1: "waitsOnlyOnReservation (ret_trace r1)"
    using no_pre_wait[OF nb(1) assms(3) r1] .
  have "load (ret_conn r1) (notBeforeOf (opposite d)) = 0"
    using other_notBefore[OF r1] nb(2) by simp
  moreover have "rateLimitLoop L S2 (ret_limiters r1) (ret_conn r1) (notBeforeOf (opposite d))
      (deadlineOf (opposite d)) (innerOf (opposite d) N) b2 = Return r2"
    using assms(6) by (simp add: call_rateLimitLoop)
  ultimately have w2: "waitsOnlyOnReservation (ret_trace r2)"
    using no_pre_wait assms(4) by blast
  show ?thesis using w1 w2 by (simp add: NewLimitedConnection_def Let_def)
qed

theorem first_calls_skip_pre_wait_witness:
  "call Reading exampleLimiter exampleConn exampleSchedule exampleLimiters exampleConnection ''abcd''
     = Return \<lparr>ret_n = 2, ret_err = None, ret_conn = exampleConnection\<lparr>inner := 1\<rparr>,
               ret_limiters = exampleLimiters(0 := (2, 130)),
               ret_trace = [EvInner ''ab'', EvReserve 110 2, EvWait 130]\<rparr>
   \<and> call Writing exampleLimiter exampleConn exampleSchedule (exampleLimiters(0 := (2, 130)))
         (exampleConnection\<lparr>inner := 1\<rparr>) ''xyz''
     = Return \<lparr>ret_n = 2, ret_err = None, ret_conn = exampleConnection\<lparr>inner := 2\<rparr>,
               ret_limiters = exampleLimiters(0 := (2, 150)),
               ret_trace = [EvInner ''xy'', EvReserve 110 2, EvWait 150]\<rparr>
   \<and> waitsOnlyOnReservation [EvInner ''ab'', EvReserve 110 2, EvWait 130]
   \<and> waitsOnlyOnReservation [EvInner ''xy'', EvReserve 110 2, EvWait 150]
   \<and> readNotBefore exampleConnection = 0 \<and> writeNotBefore exampleConnection = 0"
  using first_calls_skip_pre_wait[where ?c0.0 = exampleConnection and L = exampleLimiter
      and L' = exampleLimiter and ?h0.0 = exampleLimiters and i = "0 :: nat" and lp = "0 :: nat"
      and ?S1.0 = exampleSchedule
      and ?S2.0 = exampleSchedule and d = Reading and N = exampleConn and h = exampleLimiters
      and ?b1.0 = "''abcd''" and ?b2.0 = "''xyz''"
      and ?r1.0 = "\<lparr>ret_n = 2, ret_err = None, ret_conn = exampleConnection\<lparr>inner := 1\<rparr>,
               ret_limiters = exampleLimiters(0 := (2, 130)),
               ret_trace = [EvInner ''ab'', EvReserve 110 2, EvWait 130]\<rparr>"
      and ?r2.0 = "\<lparr>ret_n = 2, ret_err = None, ret_conn = exampleConnection\<lparr>inner := 2\<rparr>,
               ret_limiters = exampleLimiters(0 := (2, 150)),
               ret_trace = [EvInner ''xy'', EvReserve 110 2, EvWait 150]\<rparr>"]
  by (simp add: example_eval)

end
